theory Spec2Isabelle
  imports Complex_Main
begin

section \<open>Numbers, errors and the Python primitives used by \<open>springs.py\<close>\<close>

text \<open>
  The module computes with Python 2 floats, which are IEEE doubles. A float is modelled
  as the \<^typ>\<open>real\<close> number it stands for. The model follows the interpreter where it
  leaves the arithmetic of the reals:
  \<^item> a float division whose divisor is zero raises \<open>ZeroDivisionError\<close>;
  \<^item> a power of a negative base with a fractional exponent raises \<open>ValueError\<close>;
  \<^item> a power whose result is beyond the largest double raises \<open>OverflowError\<close>, and so
    does \<open>float\<close> of an integer that large;
  \<^item> a power or a quotient too small for the least subnormal double is 0;
  \<^item> reading an attribute that was never assigned raises \<open>AttributeError\<close>.

  What the model does not follow: the rounding of each result to 53 bits, the coarser
  rounding of subnormal results, the infinities and NaN that sums, products and quotients
  beyond the largest double produce, and the sign of zero. Where a statement about all
  inputs of a function depends on it, the statement names the range of the intermediate
  results in which the interpreter and the model agree up to rounding.

  The last three constructors of \<open>error\<close> are the error kinds named by the
  specification. No function of the source raises them; they are declared so that
  statements about them can be written down and decided.
\<close>

datatype error =
    ZeroDivisionError
  | ValueError
  | OverflowError
  | AttributeError
  | UnsupportedMaterial
  | DomainError
  | InvalidGeometry

text \<open>Sequencing of calls that may raise: the first exception ends the computation.\<close>

definition bindE :: "error + 'a \<Rightarrow> ('a \<Rightarrow> error + 'b) \<Rightarrow> error + 'b" where
  "bindE r f = (case r of Inl e \<Rightarrow> Inl e | Inr v \<Rightarrow> f v)"

text \<open>
  The range of the doubles: \<open>sys.float_info.max\<close> and \<open>sys.float_info.min\<close>, the largest
  double and the least positive normal one.
\<close>

definition float_max :: real where
  "float_max = 2 ^ 1024 - 2 ^ 971"

definition float_min :: real where
  "float_min = 1 / 2 ^ 1022"

text \<open>
  A result rounds to infinity from half a unit in the last place above \<open>float_max\<close> on,
  and to zero up to half the least subnormal double, \<open>2\<^sup>-\<^sup>1\<^sup>0\<^sup>7\<^sup>5\<close>.
\<close>

definition overflows :: "real \<Rightarrow> bool" where
  "overflows r \<longleftrightarrow> 2 ^ 1024 - 2 ^ 970 \<le> \<bar>r\<bar>"

definition underflow :: "real \<Rightarrow> real" where
  "underflow r = (if \<bar>r\<bar> \<le> 1 / 2 ^ 1075 then 0 else r)"

text \<open>
  The results a double holds with full precision: between \<open>float_min\<close> and \<open>float_max\<close>
  in magnitude.
\<close>

definition in_normal_range :: "real \<Rightarrow> bool" where
  "in_normal_range r \<longleftrightarrow> float_min \<le> \<bar>r\<bar> \<and> \<bar>r\<bar> \<le> float_max"

text \<open>\<open>x / y\<close> on floats.\<close>

definition float_div :: "real \<Rightarrow> real \<Rightarrow> error + real" where
  "float_div x y = (if y = 0 then Inl ZeroDivisionError else Inr (underflow (x / y)))"

text \<open>
  The value of a power once the domain checks have passed: an integral exponent is
  repeated multiplication (also for a negative base), any other exponent is the real
  power of a positive base.
\<close>

definition pow_value :: "real \<Rightarrow> real \<Rightarrow> real" where
  "pow_value x y = (if y = of_int \<lfloor>y\<rfloor> then x powi \<lfloor>y\<rfloor> else x powr y)"

text \<open>Both power functions report a result beyond the doubles and let a tiny one be 0.\<close>

definition pow_result :: "real \<Rightarrow> error + real" where
  "pow_result r = (if overflows r then Inl OverflowError else Inr (underflow r))"

text \<open>
  The builtin \<open>pow(x, y)\<close> on floats (Python 2): \<open>pow(x, 0.0)\<close> is 1, zero to a negative
  power raises \<open>ZeroDivisionError\<close>, a negative base with a fractional exponent raises
  \<open>ValueError\<close>.
\<close>

definition float_pow :: "real \<Rightarrow> real \<Rightarrow> error + real" where
  "float_pow x y =
     (if y = 0 then Inr 1
      else if x = 0 then (if y < 0 then Inl ZeroDivisionError else Inr 0)
      else if x < 0 \<and> y \<noteq> of_int \<lfloor>y\<rfloor> then Inl ValueError
      else pow_result (pow_value x y))"

text \<open>\<open>math.pow(x, y)\<close>: as the builtin, but both domain errors are \<open>ValueError\<close>.\<close>

definition math_pow :: "real \<Rightarrow> real \<Rightarrow> error + real" where
  "math_pow x y =
     (if y = 0 then Inr 1
      else if x = 0 then (if y < 0 then Inl ValueError else Inr 0)
      else if x < 0 \<and> y \<noteq> of_int \<lfloor>y\<rfloor> then Inl ValueError
      else pow_result (pow_value x y))"



text \<open>\<open>str.lower()\<close> on a byte string: the letters \<open>A\<close> to \<open>Z\<close> are mapped, nothing else.\<close>

definition lower_char :: "char \<Rightarrow> char" where
  "lower_char c =
     (case map_of (zip ''ABCDEFGHIJKLMNOPQRSTUVWXYZ'' ''abcdefghijklmnopqrstuvwxyz'') c of
        None \<Rightarrow> c
      | Some l \<Rightarrow> l)"

definition lower :: "string \<Rightarrow> string" where
  "lower s = map lower_char s"

text \<open>
  The numbers a caller passes: Python ints, which are unbounded, and floats. \<open>float(x)\<close>
  returns a float unchanged and converts an int, raising \<open>OverflowError\<close> when the int is
  too large for a double. Arguments that are not numbers are not modelled.
\<close>

datatype pynum = PyInt int | PyFloat real

fun py_float :: "pynum \<Rightarrow> error + real" where
  "py_float (PyFloat x) = Inr x"
| "py_float (PyInt n) = (if overflows (of_int n) then Inl OverflowError else Inr (of_int n))"

section \<open>\<open>units.py\<close>\<close>

definition inch :: real where
  "inch = 0.0254"

definition psi :: real where
  "psi = 6894.75729"

definition lb :: real where
  "lb = 0.453592"

section \<open>\<open>Material\<close>\<close>

text \<open>
  A \<open>Material\<close> object holds three attributes, assigned only on the steel branch of the
  constructor. An attribute that was never assigned is \<open>None\<close> here.
\<close>

record Material =
  youngs_modulus :: "real option"
  poisson_ratio :: "real option"
  density :: "real option"

definition STEEL :: string where
  "STEEL = ''steel''"

text \<open>
  The constructor returns what it printed together with the object. Its \<open>else\<close> branch
  prints one line and assigns nothing.
\<close>

definition Material_init :: "string \<Rightarrow> error + (string list \<times> Material)" where
  "Material_init nm =
     (if lower nm = STEEL then
        bindE (float_pow inch 3) (\<lambda>p.
        bindE (float_div (0.284 * lb) p) (\<lambda>rho.
          Inr ([], \<lparr>youngs_modulus = Some (29000000 * psi),
                    poisson_ratio = Some 0.3,
                    density = Some rho\<rparr>)))
      else
        Inr ([''I am not sure about that material''],
             \<lparr>youngs_modulus = None, poisson_ratio = None, density = None\<rparr>))"

definition attr :: "'a option \<Rightarrow> error + 'a" where
  "attr a = (case a of None \<Rightarrow> Inl AttributeError | Some v \<Rightarrow> Inr v)"

definition shear_modulus :: "Material \<Rightarrow> error + real" where
  "shear_modulus m =
     bindE (attr (youngs_modulus m)) (\<lambda>E.
     bindE (attr (poisson_ratio m)) (\<lambda>nu.
       float_div E (2 * (1 + nu))))"

section \<open>\<open>Spring\<close>\<close>

record Spring =
  mean_diameter :: real
  wire_diameter :: real
  free_length :: real
  num_coils :: real
  material :: Material

text \<open>
  The constructor converts its four numbers with \<open>float\<close>, in the order of the
  assignments, and stores them with the material. It compares nothing.
\<close>

definition Spring_init :: "pynum \<Rightarrow> pynum \<Rightarrow> pynum \<Rightarrow> pynum \<Rightarrow> Material \<Rightarrow> error + Spring" where
  "Spring_init mean wire len coils m =
     bindE (py_float mean) (\<lambda>D.
     bindE (py_float wire) (\<lambda>d.
     bindE (py_float len) (\<lambda>L0.
     bindE (py_float coils) (\<lambda>N.
       Inr \<lparr>mean_diameter = D, wire_diameter = d, free_length = L0, num_coils = N,
            material = m\<rparr>))))"

definition spring_constant :: "Spring \<Rightarrow> error + real" where
  "spring_constant s =
     bindE (shear_modulus (material s)) (\<lambda>G.
     bindE (math_pow (wire_diameter s) 4) (\<lambda>p4.
     bindE (math_pow (mean_diameter s) 3) (\<lambda>p3.
       float_div (G * p4) (8 * p3 * num_coils s))))"



definition solid_height :: "Spring \<Rightarrow> real" where
  "solid_height s = wire_diameter s * (num_coils s + 2)"

definition max_displacement :: "Spring \<Rightarrow> real" where
  "max_displacement s = free_length s - solid_height s"


definition max_force :: "Spring \<Rightarrow> error + real" where
  "max_force s =
     bindE (spring_constant s) (\<lambda>k. Inr (k * (free_length s - solid_height s)))"

definition spring_index :: "Spring \<Rightarrow> error + real" where
  "spring_index s = float_div (mean_diameter s) (wire_diameter s)"

definition whal :: "Spring \<Rightarrow> error + real" where
  "whal s =
     bindE (spring_index s) (\<lambda>C.
     bindE (float_div (4 * C - 1) (4 * C - 4)) (\<lambda>a.
     bindE (float_div 0.615 C) (\<lambda>b.
       Inr (a + b))))"

definition max_shear :: "Spring \<Rightarrow> error + real" where
  "max_shear s =
     bindE (whal s) (\<lambda>w.
     bindE (max_force s) (\<lambda>f.
     bindE (float_pow (wire_diameter s) 3) (\<lambda>p.
       float_div (8 * w * mean_diameter s * f) (pi * p))))"


section \<open>Evaluation lemmas\<close>

lemma bindE_Inl: "bindE (Inl e) f = Inl e"
  by (simp add: bindE_def)

lemma bindE_Inr: "bindE (Inr v) f = f v"
  by (simp add: bindE_def)

lemmas bindE_simps = bindE_Inl bindE_Inr

text \<open>Inside the normal range nothing overflows and nothing is flushed to zero.\<close>

lemma normal_nonzero: "in_normal_range r \<Longrightarrow> r \<noteq> 0"
  by (auto simp: in_normal_range_def float_min_def)

lemma normal_underflow: "in_normal_range r \<Longrightarrow> underflow r = r"
proof -
  assume "in_normal_range r"
  then have "1 / 2 ^ 1022 \<le> \<bar>r\<bar>"
    by (simp add: in_normal_range_def float_min_def)
  moreover have "(1::real) / 2 ^ 1075 < 1 / 2 ^ 1022"
    by simp
  ultimately show ?thesis
    by (simp add: underflow_def)
qed

lemma normal_not_overflows: "in_normal_range r \<Longrightarrow> \<not> overflows r"
proof -
  assume "in_normal_range r"
  then have "\<bar>r\<bar> \<le> 2 ^ 1024 - 2 ^ 971"
    by (simp add: in_normal_range_def float_max_def)
  moreover have "(2::real) ^ 1024 - 2 ^ 971 < 2 ^ 1024 - 2 ^ 970"
    by simp
  ultimately show ?thesis
    by (simp add: overflows_def)
qed

lemma pow_result_normal: "in_normal_range r \<Longrightarrow> pow_result r = Inr r"
  by (simp add: pow_result_def normal_underflow normal_not_overflows)

text \<open>A handy part of the normal range for concrete numbers.\<close>

lemma moderate_normal:
  assumes "1 / 10 ^ 300 \<le> \<bar>r\<bar>" and "\<bar>r\<bar> \<le> 10 ^ 300"
  shows "in_normal_range r"
proof -
  have "(1::real) / 2 ^ 1022 \<le> 1 / 10 ^ 300"
    by simp
  moreover have "(10::real) ^ 300 \<le> 2 ^ 1024 - 2 ^ 971"
    by simp
  ultimately show ?thesis
    using assms by (simp add: in_normal_range_def float_min_def float_max_def)
qed


lemma pow_value_3: "pow_value x 3 = x ^ 3"
  by (simp add: pow_value_def power_int_def)

lemma pow_value_4: "pow_value x 4 = x ^ 4"
  by (simp add: pow_value_def power_int_def)

lemma float_pow_3: "float_pow x 3 = (if x = 0 then Inr 0 else pow_result (x ^ 3))"
  by (simp add: float_pow_def pow_value_3)

lemma math_pow_3: "math_pow x 3 = (if x = 0 then Inr 0 else pow_result (x ^ 3))"
  by (simp add: math_pow_def pow_value_3)

lemma math_pow_4: "math_pow x 4 = (if x = 0 then Inr 0 else pow_result (x ^ 4))"
  by (simp add: math_pow_def pow_value_4)

lemma float_pow_3_normal: "in_normal_range (x ^ 3) \<Longrightarrow> float_pow x 3 = Inr (x ^ 3)"
  by (auto simp: float_pow_3 pow_result_normal dest: normal_nonzero)

lemma math_pow_3_normal: "in_normal_range (x ^ 3) \<Longrightarrow> math_pow x 3 = Inr (x ^ 3)"
  by (auto simp: math_pow_3 pow_result_normal dest: normal_nonzero)

lemma math_pow_4_normal: "in_normal_range (x ^ 4) \<Longrightarrow> math_pow x 4 = Inr (x ^ 4)"
  by (auto simp: math_pow_4 pow_result_normal dest: normal_nonzero)

lemma float_div_normal:
  "y \<noteq> 0 \<Longrightarrow> in_normal_range (x / y) \<Longrightarrow> float_div x y = Inr (x / y)"
  by (simp add: float_div_def normal_underflow)


lemma lower_STEEL: "lower STEEL = STEEL"
  by (simp add: lower_def lower_char_def STEEL_def)

lemma plain_normal:
  assumes "1 / 10 ^ 30 \<le> \<bar>r\<bar>" and "\<bar>r\<bar> \<le> 10 ^ 30"
  shows "in_normal_range r"
proof (rule moderate_normal)
  have "(1::real) / 10 ^ 300 \<le> 1 / 10 ^ 30" by simp
  with assms(1) show "1 / 10 ^ 300 \<le> \<bar>r\<bar>" by linarith
  have "(10::real) ^ 30 \<le> 10 ^ 300" by simp
  with assms(2) show "\<bar>r\<bar> \<le> 10 ^ 300" by linarith
qed












text \<open>The steel material, and the functions of a spring inside the normal range.\<close>

lemma steel_shear_modulus:
  "shear_modulus \<lparr>youngs_modulus = Some (29000000 * psi), poisson_ratio = Some 0.3,
       density = Some rho\<rparr> = Inr (29000000 * psi / 2.6)"
proof -
  have n: "in_normal_range (29000000 * psi / 2.6)"
    by (rule plain_normal) (simp_all add: psi_def)
  have "float_div (29000000 * psi) (2 * (1 + 0.3)) = Inr (29000000 * psi / 2.6)"
    using float_div_normal [of "2 * (1 + 0.3)" "29000000 * psi"] n by simp
  then show ?thesis
    by (simp add: shear_modulus_def attr_def bindE_simps)
qed

lemma steel_init:
  assumes "lower nm = STEEL"
  shows "Material_init nm =
     Inr ([], \<lparr>youngs_modulus = Some (29000000 * psi), poisson_ratio = Some 0.3,
               density = Some (0.284 * lb / inch ^ 3)\<rparr>)"
proof -
  have p: "float_pow inch 3 = Inr (inch ^ 3)"
    by (rule float_pow_3_normal, rule plain_normal) (simp_all add: inch_def power_divide)
  have q: "float_div (0.284 * lb) (inch ^ 3) = Inr (0.284 * lb / inch ^ 3)"
    by (rule float_div_normal, simp add: inch_def, rule plain_normal)
       (simp_all add: inch_def lb_def power_divide)
  show ?thesis
    unfolding Material_init_def p bindE_simps q
    using assms by simp
qed

lemma spring_constant_normal:
  assumes "shear_modulus (material s) = Inr G"
    and "in_normal_range (wire_diameter s ^ 4)"
    and "in_normal_range (mean_diameter s ^ 3)"
    and "in_normal_range (8 * mean_diameter s ^ 3 * num_coils s)"
    and "in_normal_range (G * wire_diameter s ^ 4 / (8 * mean_diameter s ^ 3 * num_coils s))"
  shows "spring_constant s =
           Inr (G * wire_diameter s ^ 4 / (8 * mean_diameter s ^ 3 * num_coils s))"
proof -
  have den: "8 * mean_diameter s ^ 3 * num_coils s \<noteq> 0"
    using assms(4) by (rule normal_nonzero)
  show ?thesis
    unfolding spring_constant_def assms(1) bindE_simps
      math_pow_4_normal [OF assms(2)] math_pow_3_normal [OF assms(3)]
    using den assms(5) by (rule float_div_normal)
qed

lemma max_force_eval:
  "spring_constant s = Inr k \<Longrightarrow> max_force s = Inr (k * max_displacement s)"
  by (simp add: max_force_def max_displacement_def bindE_simps)

lemma whal_normal:
  assumes "spring_index s = Inr C"
    and "4 * C - 4 \<noteq> 0" and "in_normal_range ((4 * C - 1) / (4 * C - 4))"
    and "C \<noteq> 0" and "in_normal_range (0.615 / C)"
  shows "whal s = Inr ((4 * C - 1) / (4 * C - 4) + 0.615 / C)"
  unfolding whal_def assms(1) bindE_simps
    float_div_normal [OF assms(2,3)] float_div_normal [OF assms(4,5)]
  by simp





lemma over_pi_normal:
  assumes "4 / 10 ^ 30 \<le> c" and "c \<le> 2 * 10 ^ 30"
  shows "in_normal_range (c / pi)"
proof (rule plain_normal)
  define L :: real where "L = 10 ^ 30"
  have L: "0 < L" by (simp add: L_def)
  have lo: "4 / L \<le> c" and hi: "c \<le> 2 * L"
    using assms by (simp_all add: L_def)
  have c: "0 < c"
    using L lo by (meson divide_pos_pos less_le_trans zero_less_numeral)
  have "1 / L = (4 / L) / 4" by simp
  also have "\<dots> \<le> c / 4"
    using lo by (rule divide_right_mono) simp
  also have "\<dots> \<le> c / pi"
    using c pi_less_4 by (intro divide_left_mono) simp_all
  finally have a: "1 / L \<le> c / pi" .
  have "c / pi \<le> c / 2"
    using c pi_ge_two by (intro divide_left_mono) simp_all
  also have "\<dots> \<le> (2 * L) / 2"
    using hi by (rule divide_right_mono) simp
  finally have b: "c / pi \<le> L" by simp
  have "\<bar>c / pi\<bar> = c / pi"
    using c by simp
  with a b show "1 / 10 ^ 30 \<le> \<bar>c / pi\<bar>" and "\<bar>c / pi\<bar> \<le> 10 ^ 30"
    unfolding L_def by simp_all
qed






text \<open>The only exception the conversions of the constructor can raise.\<close>

lemma py_float_error: "py_float x = Inl e \<Longrightarrow> e = OverflowError"
  by (cases x) (auto split: if_splits)

lemma Spring_init_error: "Spring_init a b c e m = Inl err \<Longrightarrow> err = OverflowError"
  by (auto simp: Spring_init_def bindE_def split: sum.splits dest: py_float_error)

section \<open>The steel material\<close>

text \<open>
  C5. Constructing a material from a name that is \<open>steel\<close> up to letter case prints
  nothing and yields Young's modulus \<open>29\<times>10\<^sup>6 psi\<close> in pascals, Poisson ratio 0.3 and
  density \<open>0.284 lb/in\<^sup>3\<close> in \<open>kg/m\<^sup>3\<close>; its \<open>shear_modulus\<close> returns \<open>E / (2 (1 + \<nu>))\<close>,
  which is \<open>E / 2.6\<close>.
\<close>

theorem steel_material:
  assumes "lower nm = STEEL"
  shows "\<exists>m. Material_init nm = Inr ([], m) \<and>
           youngs_modulus m = Some (29000000 * psi) \<and>
           poisson_ratio m = Some 0.3 \<and>
           density m = Some (0.284 * lb / inch ^ 3) \<and>
           shear_modulus m = Inr (29000000 * psi / (2 * (1 + 0.3))) \<and>
           shear_modulus m = Inr (29000000 * psi / 2.6)"
  using steel_init [OF assms] steel_shear_modulus [of "0.284 * lb / inch ^ 3"]
  by simp

theorem steel_material_witness:
  "lower ''Steel'' = STEEL \<and>
   (\<exists>m. Material_init ''Steel'' = Inr ([], m) \<and>
        youngs_modulus m = Some 199947961410 \<and>
        poisson_ratio m = Some 0.3 \<and>
        density m = Some (0.284 * 0.453592 / 0.0254 ^ 3) \<and>
        shear_modulus m = Inr (199947961410 / 2.6))"
proof -
  have h: "lower ''Steel'' = STEEL"
    by (simp add: lower_def lower_char_def STEEL_def)
  from steel_material [OF h] h show ?thesis
    by (simp add: psi_def lb_def inch_def)
qed

section \<open>The worked example of the module\<close>

text \<open>
  C6. The spring of the module's own example: mean diameter \<open>(0.5 - 0.035) in\<close>, wire
  diameter \<open>0.035 in\<close>, free length \<open>1 in\<close>, 8 coils, steel. Its spring index is 13.29 to two
  decimals, its solid height is \<open>0.35 in\<close>, its maximal displacement is \<open>0.65 in\<close>, and
  \<open>spring_constant\<close> and \<open>max_shear\<close> agree with the closed forms \<open>G d\<^sup>4 / (8 D\<^sup>3 N)\<close> and
  \<open>8 W D F / (\<pi> d\<^sup>3)\<close>, evaluated on the numbers of the example, to a relative error of at
  most \<open>10\<^sup>-\<^sup>6\<close>; the rate lies between 455.52 and 455.53 newtons per metre.
\<close>

theorem efunda_scenario:
  "\<exists>out m s C k t.
     Material_init STEEL = Inr (out, m) \<and>
     Spring_init (PyFloat ((0.5 - 0.035) * inch)) (PyFloat (0.035 * inch))
       (PyFloat (1 * inch)) (PyInt 8) m = Inr s \<and>
     spring_index s = Inr C \<and> \<bar>C - 13.29\<bar> < 0.005 \<and>
     solid_height s = 0.35 * inch \<and>
     max_displacement s = 0.65 * inch \<and>
     spring_constant s = Inr k \<and>
     \<bar>k - (29000000 * 6894.75729 / 2.6) * (0.035 * 0.0254) ^ 4
           / (8 * ((0.5 - 0.035) * 0.0254) ^ 3 * 8)\<bar>
       \<le> \<bar>(29000000 * 6894.75729 / 2.6) * (0.035 * 0.0254) ^ 4
           / (8 * ((0.5 - 0.035) * 0.0254) ^ 3 * 8)\<bar> / 10 ^ 6 \<and>
     455.52 < k \<and> k < 455.53 \<and>
     max_shear s = Inr t \<and>
     \<bar>t - 8 * ((4 * (93 / 7) - 1) / (4 * (93 / 7) - 4) + 0.615 / (93 / 7))
             * ((0.5 - 0.035) * 0.0254) * (k * (0.65 * 0.0254)) / (pi * (0.035 * 0.0254) ^ 3)\<bar>
       \<le> \<bar>8 * ((4 * (93 / 7) - 1) / (4 * (93 / 7) - 4) + 0.615 / (93 / 7))
             * ((0.5 - 0.035) * 0.0254) * (k * (0.65 * 0.0254)) / (pi * (0.035 * 0.0254) ^ 3)\<bar>
          / 10 ^ 6"
proof -
  let ?m = "\<lparr>youngs_modulus = Some (29000000 * psi), poisson_ratio = Some 0.3,
             density = Some (0.284 * lb / inch ^ 3)\<rparr>"
  let ?s = "\<lparr>mean_diameter = (0.5 - 0.035) * inch, wire_diameter = 0.035 * inch,
             free_length = 1 * inch, num_coils = 8, material = ?m\<rparr>"
  let ?k = "(29000000 * 6894.75729 / 2.6) * (0.035 * 0.0254) ^ 4
           / (8 * ((0.5 - 0.035) * 0.0254) ^ 3 * 8) :: real"
  let ?w = "(4 * (93 / 7) - 1) / (4 * (93 / 7) - 4) + 0.615 / (93 / 7) :: real"
  let ?t = "8 * ?w * ((0.5 - 0.035) * 0.0254) * (?k * (0.65 * 0.0254)) / (pi * (0.035 * 0.0254) ^ 3)"
  have m: "Material_init STEEL = Inr ([], ?m)"
    by (rule steel_init [OF lower_STEEL])
  have s: "Spring_init (PyFloat ((0.5 - 0.035) * inch)) (PyFloat (0.035 * inch))
       (PyFloat (1 * inch)) (PyInt 8) ?m = Inr ?s"
    by (simp add: Spring_init_def bindE_simps overflows_def)
  have "float_div ((0.5 - 0.035) * inch) (0.035 * inch) = Inr ((0.5 - 0.035) * inch / (0.035 * inch))"
    by (rule float_div_normal, simp add: inch_def, rule plain_normal)
       (simp_all add: inch_def)
  then have C: "spring_index ?s = Inr (93 / 7)"
    by (simp add: spring_index_def inch_def)
  have Cb: "\<bar>93 / 7 - 13.29\<bar> < (0.005::real)"
    by simp
  have sh: "solid_height ?s = 0.35 * inch"
    by (simp add: solid_height_def)
  have md: "max_displacement ?s = 0.65 * inch"
    by (simp add: max_displacement_def solid_height_def)
  have G: "shear_modulus (material ?s) = Inr (29000000 * psi / 2.6)"
    using steel_shear_modulus [of "0.284 * lb / inch ^ 3"] by simp
  have "spring_constant ?s =
      Inr (29000000 * psi / 2.6 * wire_diameter ?s ^ 4
             / (8 * mean_diameter ?s ^ 3 * num_coils ?s))"
    by (rule spring_constant_normal [OF G]; rule plain_normal)
       (simp_all add: inch_def psi_def power_divide)
  then have k: "spring_constant ?s = Inr ?k"
    by (simp add: inch_def psi_def)
  have kb: "455.52 < ?k" "?k < 455.53"
    by (simp_all add: power_divide)
  have w: "whal ?s = Inr ?w"
    by (rule whal_normal [OF C]; (rule plain_normal)?) simp_all
  have f: "max_force ?s = Inr (?k * (0.65 * 0.0254))"
    unfolding max_force_eval [OF k]
    by (simp add: max_displacement_def solid_height_def inch_def)
  have p: "float_pow (wire_diameter ?s) 3 = Inr (wire_diameter ?s ^ 3)"
    by (rule float_pow_3_normal, rule plain_normal) (simp_all add: inch_def power_divide)
  have tn: "in_normal_range (8 * ?w * mean_diameter ?s * (?k * (0.65 * 0.0254))
                / (pi * wire_diameter ?s ^ 3))"
  proof -
    have eq: "x / (pi * y) = x / y / pi" for x y :: real
      by (simp add: mult.commute)
    show ?thesis
      unfolding eq
      by (rule over_pi_normal) (simp_all add: inch_def power_divide)
  qed
  have pn: "pi * wire_diameter ?s ^ 3 \<noteq> 0"
    by (simp add: inch_def)
  have "max_shear ?s = Inr (8 * ?w * mean_diameter ?s * (?k * (0.65 * 0.0254))
                / (pi * wire_diameter ?s ^ 3))"
    unfolding max_shear_def w f bindE_simps p
    using pn tn by (rule float_div_normal)
  then have t: "max_shear ?s = Inr ?t"
    by (simp add: inch_def)
  have tol: "\<bar>x - x\<bar> \<le> \<bar>x\<bar> / 10 ^ 6" for x :: real
    by simp
  show ?thesis
    apply (rule exI [of _ "[]"], rule exI [of _ ?m], rule exI [of _ ?s])
    apply (rule exI [of _ "93 / 7"], rule exI [of _ ?k], rule exI [of _ ?t])
    apply (intro conjI m s C Cb sh md k kb t tol)
    done
qed

section \<open>Unknown material names\<close>

text \<open>
  C2, as stated: a material name other than \<open>steel\<close> makes the construction fail with
  \<open>UnsupportedMaterial\<close>. The constructor does not fail on \<open>brass\<close>: it prints its warning
  and returns an object.
\<close>

theorem material_brass_constructed:
  "lower ''brass'' \<noteq> STEEL \<and>
   Material_init ''brass'' \<noteq> Inl UnsupportedMaterial \<and>
   Material_init ''brass'' =
     Inr ([''I am not sure about that material''],
          \<lparr>youngs_modulus = None, poisson_ratio = None, density = None\<rparr>)"
  by (simp add: Material_init_def lower_def lower_char_def STEEL_def)

text \<open>
  C2, amended: for every name that is not \<open>steel\<close> up to letter case the constructor raises
  nothing; it prints \<open>I am not sure about that material\<close> and returns an object none of
  whose three attributes is assigned. The failure comes later: \<open>shear_modulus\<close> on that
  object raises \<open>AttributeError\<close>.
\<close>

theorem material_unknown_name:
  assumes "lower nm \<noteq> STEEL"
  shows "Material_init nm =
           Inr ([''I am not sure about that material''],
                \<lparr>youngs_modulus = None, poisson_ratio = None, density = None\<rparr>) \<and>
         shear_modulus \<lparr>youngs_modulus = None, poisson_ratio = None, density = None\<rparr>
           = Inl AttributeError"
  using assms by (simp add: Material_init_def shear_modulus_def attr_def bindE_simps)

theorem material_unknown_name_witness:
  "lower ''Aluminum'' \<noteq> STEEL \<and>
   Material_init ''Aluminum'' =
     Inr ([''I am not sure about that material''],
          \<lparr>youngs_modulus = None, poisson_ratio = None, density = None\<rparr>) \<and>
   shear_modulus \<lparr>youngs_modulus = None, poisson_ratio = None, density = None\<rparr>
     = Inl AttributeError"
proof -
  have h: "lower ''Aluminum'' \<noteq> STEEL"
    by (simp add: lower_def lower_char_def STEEL_def)
  from material_unknown_name [OF h] h show ?thesis by simp
qed

section \<open>Spring rate and force at solid height\<close>




section \<open>Rise angle\<close>



section \<open>Inverse design\<close>




section \<open>Construction of a spring\<close>

text \<open>
  C4, as stated: constructing a spring with \<open>d \<ge> D\<close>, or with a non-positive diameter,
  length or coil count, fails with \<open>InvalidGeometry\<close>. The constructor accepts a wire
  thicker than the coil, and zero and negative numbers.
\<close>

theorem spring_wire_thicker_than_coil_constructed:
  "Spring_init (PyInt 1) (PyInt 2) (PyInt 1) (PyInt 1)
     \<lparr>youngs_modulus = Some (29000000 * psi), poisson_ratio = Some 0.3,
        density = Some (0.284 * lb / inch ^ 3)\<rparr> =
     Inr \<lparr>mean_diameter = 1, wire_diameter = 2, free_length = 1, num_coils = 1,
          material = \<lparr>youngs_modulus = Some (29000000 * psi), poisson_ratio = Some 0.3,
             density = Some (0.284 * lb / inch ^ 3)\<rparr>\<rparr> \<and>
   Spring_init (PyInt 1) (PyInt 2) (PyInt 1) (PyInt 1)
     \<lparr>youngs_modulus = Some (29000000 * psi), poisson_ratio = Some 0.3,
        density = Some (0.284 * lb / inch ^ 3)\<rparr> \<noteq> Inl InvalidGeometry \<and>
   Spring_init (PyFloat 0) (PyFloat 0) (PyFloat (- 1)) (PyInt 0)
     \<lparr>youngs_modulus = Some (29000000 * psi), poisson_ratio = Some 0.3,
        density = Some (0.284 * lb / inch ^ 3)\<rparr> \<noteq> Inl InvalidGeometry"
  by (simp add: Spring_init_def bindE_simps overflows_def)

text \<open>
  C4, amended: the constructor does not validate the geometry. It never raises
  \<open>InvalidGeometry\<close>; whenever \<open>float\<close> converts its four numbers it succeeds and stores
  the converted numbers and the material, whatever their signs and order; and \<open>float\<close>
  converts every float.
\<close>

theorem spring_init_no_validation:
  "Spring_init a b c e m \<noteq> Inl InvalidGeometry \<and>
   (py_float a = Inr D \<and> py_float b = Inr d \<and> py_float c = Inr L0 \<and> py_float e = Inr N \<longrightarrow>
      Spring_init a b c e m =
        Inr \<lparr>mean_diameter = D, wire_diameter = d, free_length = L0, num_coils = N,
             material = m\<rparr>) \<and>
   Spring_init (PyFloat D') (PyFloat d') (PyFloat L0') (PyFloat N') m =
     Inr \<lparr>mean_diameter = D', wire_diameter = d', free_length = L0', num_coils = N',
          material = m\<rparr>"
proof (intro conjI impI)
  show "Spring_init a b c e m \<noteq> Inl InvalidGeometry"
    using Spring_init_error [of a b c e m InvalidGeometry] by auto
next
  assume "py_float a = Inr D \<and> py_float b = Inr d \<and> py_float c = Inr L0 \<and> py_float e = Inr N"
  then show "Spring_init a b c e m =
        Inr \<lparr>mean_diameter = D, wire_diameter = d, free_length = L0, num_coils = N,
             material = m\<rparr>"
    by (simp add: Spring_init_def bindE_simps)
next
  show "Spring_init (PyFloat D') (PyFloat d') (PyFloat L0') (PyFloat N') m =
     Inr \<lparr>mean_diameter = D', wire_diameter = d', free_length = L0', num_coils = N',
          material = m\<rparr>"
    by (simp add: Spring_init_def bindE_simps)
qed

theorem spring_init_no_validation_witness:
  "py_float (PyInt 3) = Inr 3 \<and> py_float (PyFloat 5) = Inr 5 \<and>
   py_float (PyInt (- 2)) = Inr (- 2) \<and> py_float (PyInt 0) = Inr 0 \<and>
   Spring_init (PyInt 3) (PyFloat 5) (PyInt (- 2)) (PyInt 0)
     \<lparr>youngs_modulus = None, poisson_ratio = None, density = None\<rparr> =
     Inr \<lparr>mean_diameter = 3, wire_diameter = 5, free_length = - 2, num_coils = 0,
          material = \<lparr>youngs_modulus = None, poisson_ratio = None, density = None\<rparr>\<rparr>"
proof -
  have h: "py_float (PyInt 3) = Inr 3" "py_float (PyFloat 5) = Inr 5"
    "py_float (PyInt (- 2)) = Inr (- 2)" "py_float (PyInt 0) = Inr 0"
    by (simp_all add: overflows_def)
  from spring_init_no_validation [of "PyInt 3" "PyFloat 5" "PyInt (- 2)" "PyInt 0"
      "\<lparr>youngs_modulus = None, poisson_ratio = None, density = None\<rparr>" 3 5 "- 2" 0] h
  show ?thesis by blast
qed

section \<open>Division by zero\<close>




end
